theory Spec2Isabelle
  imports Complex_Main
begin

section \<open>Numbers, rounding and errors\<close>

text \<open>
  The grid calculator of \<^verbatim>\<open>dca.py\<close> works on Python numbers. They are modelled as
  exact reals: every \<^verbatim>\<open>+\<close>, \<^verbatim>\<open>*\<close> and \<^verbatim>\<open>/\<close> is the mathematical operation, without the
  rounding error of binary floating point. A division whose divisor is zero raises
  \<^verbatim>\<open>ZeroDivisionError\<close> in Python (for floats as for ints), so every division by a
  value that is not a literal is a branch of the model.
\<close>

datatype py_error = ZeroDivisionError | FileNotFoundError | JSONDecodeError

text \<open>
  \<^verbatim>\<open>round(x, 2)\<close>: the nearest multiple of 0.01, a tie going to the even neighbour.
\<close>

definition round_half_even :: "real \<Rightarrow> int" where
  "round_half_even x =
     (let f = \<lfloor>x\<rfloor>; d = x - of_int f
      in if d < 1 / 2 then f
         else if 1 / 2 < d then f + 1
         else if even f then f else f + 1)"

definition round2 :: "real \<Rightarrow> real" where
  "round2 x = of_int (round_half_even (x * 100)) / 100"

text \<open>The decimal text of a natural number, as an f-string prints \<^verbatim>\<open>{i}\<close>.\<close>

definition digit_char :: "nat \<Rightarrow> char" where
  "digit_char d = char_of (48 + d)"

fun string_of_nat :: "nat \<Rightarrow> string" where
  "string_of_nat n =
     (if n < 10 then [digit_char n]
      else string_of_nat (n div 10) @ [digit_char (n mod 10)])"

declare string_of_nat.simps [simp del]

section \<open>The grid calculator\<close>

text \<open>One row of the grid: the dictionary appended to \<^verbatim>\<open>strategy\<close>.\<close>

record stage_record =
  Step :: string
  Buy_Price :: real
  Order_Size :: real
  Total_Investment :: real
  Avg_Price :: real
  TP_Target :: real
  Drop_Pct :: real

text \<open>The local variables of \<^verbatim>\<open>calculate_strategy\<close> that the loop updates.\<close>

record loop_state =
  strategy :: "stage_record list"
  cumulative_spent :: real
  cumulative_volume :: real
  last_price :: real
  last_order_size :: real
  current_deviation :: real

text \<open>Step 0, the base order (lines 27 to 35).\<close>

definition base_record :: "real \<Rightarrow> real \<Rightarrow> real \<Rightarrow> stage_record" where
  "base_record base_price base_order tp_pct =
     \<lparr>Step = ''Base'',
      Buy_Price = round2 base_price,
      Order_Size = round2 base_order,
      Total_Investment = round2 base_order,
      Avg_Price = round2 base_price,
      TP_Target = round2 (base_price * (1 + tp_pct / 100)),
      Drop_Pct = 0\<rparr>"

text \<open>
  One pass through the body of the \<^verbatim>\<open>for\<close> loop (lines 39 to 58). The three divisions
  are by \<^verbatim>\<open>buy_price\<close>, \<^verbatim>\<open>cumulative_volume\<close> and \<^verbatim>\<open>base_price\<close>, in this order.
\<close>

definition safety_order_step ::
  "real \<Rightarrow> real \<Rightarrow> real \<Rightarrow> real \<Rightarrow> nat \<Rightarrow> loop_state \<Rightarrow> py_error + loop_state" where
  "safety_order_step base_price volume_scale step_scale tp_pct i st =
     (let buy_price = last_price st * (1 - current_deviation st / 100);
          order_size = last_order_size st * volume_scale;
          spent = cumulative_spent st + order_size
      in if buy_price = 0 then Inl ZeroDivisionError
         else
           let volume = cumulative_volume st + order_size / buy_price
           in if volume = 0 then Inl ZeroDivisionError
              else
                let avg_price = spent / volume
                in if base_price = 0 then Inl ZeroDivisionError
                   else Inr
                     \<lparr>strategy = strategy st @
                        [\<lparr>Step = ''SO #'' @ string_of_nat i,
                          Buy_Price = round2 buy_price,
                          Order_Size = round2 order_size,
                          Total_Investment = round2 spent,
                          Avg_Price = round2 avg_price,
                          TP_Target = round2 (avg_price * (1 + tp_pct / 100)),
                          Drop_Pct = round2 (((base_price - buy_price) / base_price) * 100)\<rparr>],
                      cumulative_spent = spent,
                      cumulative_volume = volume,
                      last_price = buy_price,
                      last_order_size = order_size,
                      current_deviation = current_deviation st * step_scale\<rparr>)"

text \<open>The loop over \<^verbatim>\<open>range(1, safety_orders + 1)\<close>; an exception ends it.\<close>

fun safety_order_loop ::
  "real \<Rightarrow> real \<Rightarrow> real \<Rightarrow> real \<Rightarrow> nat list \<Rightarrow> loop_state \<Rightarrow> py_error + loop_state" where
  "safety_order_loop base_price volume_scale step_scale tp_pct [] st = Inr st"
| "safety_order_loop base_price volume_scale step_scale tp_pct (i # is) st =
     (case safety_order_step base_price volume_scale step_scale tp_pct i st of
        Inl e \<Rightarrow> Inl e
      | Inr st' \<Rightarrow> safety_order_loop base_price volume_scale step_scale tp_pct is st')"

text \<open>
  \<^verbatim>\<open>calculate_strategy\<close> (lines 17 to 60). The first division, of \<^verbatim>\<open>base_order\<close> by
  \<^verbatim>\<open>base_price\<close>, comes before the base record is appended. The number of safety
  orders is a natural number: the form offers no negative one, and for a negative one
  the range of the loop would be empty, as it is for zero.
\<close>

definition calculate_strategy ::
  "real \<Rightarrow> real \<Rightarrow> nat \<Rightarrow> real \<Rightarrow> real \<Rightarrow> real \<Rightarrow> real \<Rightarrow> py_error + stage_record list" where
  "calculate_strategy base_price base_order safety_orders price_step volume_scale step_scale tp_pct =
     (if base_price = 0 then Inl ZeroDivisionError
      else
        case safety_order_loop base_price volume_scale step_scale tp_pct [1..<safety_orders + 1]
               \<lparr>strategy = [base_record base_price base_order tp_pct],
                cumulative_spent = base_order,
                cumulative_volume = base_order / base_price,
                last_price = base_price,
                last_order_size = base_order,
                current_deviation = price_step\<rparr>
        of Inl e \<Rightarrow> Inl e
         | Inr st \<Rightarrow> Inr (strategy st))"

section \<open>The strategy store\<close>

text \<open>
  One saved entry of \<^verbatim>\<open>dca_strategies.json\<close>: the dictionary that \<^verbatim>\<open>save_strategy\<close>
  writes under a name. The parameters are the dictionary of the seven inputs.
\<close>

record saved_strategy =
  timestamp :: string
  parameters :: "string \<rightharpoonup> real"
  grid :: "stage_record list"

text \<open>
  The configuration file as \<^verbatim>\<open>open\<close> and \<^verbatim>\<open>json.load\<close> find it: absent, not
  decodable, or holding a JSON object from names to entries.
\<close>

datatype config_file =
  Missing
| Corrupt
| Stored "string \<rightharpoonup> saved_strategy"

text \<open>
  \<^verbatim>\<open>delete_strategy\<close> (lines 75 to 83): the returned flag and the file afterwards. The
  file is rewritten only in the branch that deletes.
\<close>

definition delete_strategy :: "string \<Rightarrow> config_file \<Rightarrow> py_error + (bool \<times> config_file)" where
  "delete_strategy name file =
     (case file of
        Missing \<Rightarrow> Inl FileNotFoundError
      | Corrupt \<Rightarrow> Inl JSONDecodeError
      | Stored data \<Rightarrow>
          (case data name of
             Some entry \<Rightarrow> Inr (True, Stored (data(name := None)))
           | None \<Rightarrow> Inr (False, Stored data)))"

section \<open>The quantities of the specification\<close>

text \<open>
  The specification speaks of the unrounded values of each stage. They are written here
  from its words, as closed forms in the stage index, and compared below with what the
  loop of \<^verbatim>\<open>calculate_strategy\<close> computes: the deviation after \<open>k\<close> safety orders,
  the unrounded buy price and order size of stage \<open>k\<close>, and the running sums of the
  money spent and of the volume bought.
\<close>

definition deviation_at :: "real \<Rightarrow> real \<Rightarrow> nat \<Rightarrow> real" where
  "deviation_at price_step step_scale k = price_step * step_scale ^ k"

primrec buy_price_at :: "real \<Rightarrow> real \<Rightarrow> real \<Rightarrow> nat \<Rightarrow> real" where
  "buy_price_at base_price price_step step_scale 0 = base_price"
| "buy_price_at base_price price_step step_scale (Suc k) =
     buy_price_at base_price price_step step_scale k *
       (1 - deviation_at price_step step_scale k / 100)"

definition order_size_at :: "real \<Rightarrow> real \<Rightarrow> nat \<Rightarrow> real" where
  "order_size_at base_order volume_scale k = base_order * volume_scale ^ k"

definition spent_at :: "real \<Rightarrow> real \<Rightarrow> nat \<Rightarrow> real" where
  "spent_at base_order volume_scale k = (\<Sum>j\<le>k. order_size_at base_order volume_scale j)"

definition volume_at :: "real \<Rightarrow> real \<Rightarrow> real \<Rightarrow> real \<Rightarrow> real \<Rightarrow> nat \<Rightarrow> real" where
  "volume_at base_price base_order price_step volume_scale step_scale k =
     (\<Sum>j\<le>k. order_size_at base_order volume_scale j /
              buy_price_at base_price price_step step_scale j)"

definition record_at ::
  "real \<Rightarrow> real \<Rightarrow> real \<Rightarrow> real \<Rightarrow> real \<Rightarrow> real \<Rightarrow> nat \<Rightarrow> stage_record" where
  "record_at base_price base_order price_step volume_scale step_scale tp_pct k =
     (if k = 0 then base_record base_price base_order tp_pct
      else
        \<lparr>Step = ''SO #'' @ string_of_nat k,
         Buy_Price = round2 (buy_price_at base_price price_step step_scale k),
         Order_Size = round2 (order_size_at base_order volume_scale k),
         Total_Investment = round2 (spent_at base_order volume_scale k),
         Avg_Price = round2 (spent_at base_order volume_scale k /
                             volume_at base_price base_order price_step volume_scale step_scale k),
         TP_Target = round2 (spent_at base_order volume_scale k /
                             volume_at base_price base_order price_step volume_scale step_scale k *
                             (1 + tp_pct / 100)),
         Drop_Pct = round2 (((base_price - buy_price_at base_price price_step step_scale k) /
                             base_price) * 100)\<rparr>)"

definition state_at ::
  "real \<Rightarrow> real \<Rightarrow> real \<Rightarrow> real \<Rightarrow> real \<Rightarrow> real \<Rightarrow> nat \<Rightarrow> loop_state" where
  "state_at base_price base_order price_step volume_scale step_scale tp_pct k =
     \<lparr>strategy = map (record_at base_price base_order price_step volume_scale step_scale tp_pct)
                    [0..<Suc k],
      cumulative_spent = spent_at base_order volume_scale k,
      cumulative_volume = volume_at base_price base_order price_step volume_scale step_scale k,
      last_price = buy_price_at base_price price_step step_scale k,
      last_order_size = order_size_at base_order volume_scale k,
      current_deviation = deviation_at price_step step_scale k\<rparr>"

definition no_zero_division ::
  "real \<Rightarrow> real \<Rightarrow> real \<Rightarrow> real \<Rightarrow> real \<Rightarrow> nat \<Rightarrow> bool" where
  "no_zero_division base_price base_order price_step volume_scale step_scale n \<longleftrightarrow>
     base_price \<noteq> 0 \<and>
     (\<forall>i\<in>{1..n}. buy_price_at base_price price_step step_scale i \<noteq> 0 \<and>
                 volume_at base_price base_order price_step volume_scale step_scale i \<noteq> 0)"

section \<open>The loop computes the closed forms\<close>

lemma safety_order_loop_snoc:
  "safety_order_loop bp vs ss tp (xs @ [i]) st =
     (case safety_order_loop bp vs ss tp xs st of
        Inl e \<Rightarrow> Inl e
      | Inr st' \<Rightarrow> safety_order_step bp vs ss tp i st')"
  by (induction xs arbitrary: st) (simp_all split: sum.splits)

lemma initial_state:
  "\<lparr>strategy = [base_record bp bo tp], cumulative_spent = bo, cumulative_volume = bo / bp,
    last_price = bp, last_order_size = bo, current_deviation = ps\<rparr> =
   state_at bp bo ps vs ss tp 0"
  by (simp add: state_at_def record_at_def spent_at_def volume_at_def order_size_at_def
      deviation_at_def)

lemma order_size_at_Suc:
  "order_size_at bo vs (Suc k) = order_size_at bo vs k * vs"
  by (simp add: order_size_at_def)

lemma deviation_at_Suc:
  "deviation_at ps ss (Suc k) = deviation_at ps ss k * ss"
  by (simp add: deviation_at_def)

lemma spent_at_Suc:
  "spent_at bo vs (Suc k) = spent_at bo vs k + order_size_at bo vs k * vs"
  by (simp add: spent_at_def order_size_at_Suc)

lemma volume_at_Suc:
  "volume_at bp bo ps vs ss (Suc k) =
     volume_at bp bo ps vs ss k +
       order_size_at bo vs k * vs / (buy_price_at bp ps ss k * (1 - deviation_at ps ss k / 100))"
  by (simp add: volume_at_def order_size_at_Suc)

lemma step_state_at:
  assumes "bp \<noteq> 0"
  shows "safety_order_step bp vs ss tp (Suc k) (state_at bp bo ps vs ss tp k) =
     (if buy_price_at bp ps ss (Suc k) = 0 \<or> volume_at bp bo ps vs ss (Suc k) = 0
      then Inl ZeroDivisionError
      else Inr (state_at bp bo ps vs ss tp (Suc k)))"
  using assms
  by (simp add: safety_order_step_def state_at_def Let_def record_at_def
      order_size_at_Suc deviation_at_Suc spent_at_Suc volume_at_Suc)

lemma loop_state_at:
  assumes "bp \<noteq> 0"
  shows "safety_order_loop bp vs ss tp [1..<Suc n] (state_at bp bo ps vs ss tp 0) =
     (if no_zero_division bp bo ps vs ss n then Inr (state_at bp bo ps vs ss tp n)
      else Inl ZeroDivisionError)"
proof (induction n)
  case 0
  then show ?case using assms by (simp add: no_zero_division_def)
next
  case (Suc n)
  have split: "no_zero_division bp bo ps vs ss (Suc n) \<longleftrightarrow>
      no_zero_division bp bo ps vs ss n \<and> buy_price_at bp ps ss (Suc n) \<noteq> 0 \<and>
      volume_at bp bo ps vs ss (Suc n) \<noteq> 0"
    unfolding no_zero_division_def
    by (auto simp: le_Suc_eq simp del: buy_price_at.simps)
  have "[1..<Suc (Suc n)] = [1..<Suc n] @ [Suc n]" by simp
  then show ?case
    using Suc step_state_at [OF assms, of vs ss tp n bo ps]
    by (simp only: safety_order_loop_snoc split) (simp del: upt_Suc buy_price_at.simps)
qed

lemma calculate_strategy_eq:
  "calculate_strategy bp bo n ps vs ss tp =
     (if no_zero_division bp bo ps vs ss n
      then Inr (map (record_at bp bo ps vs ss tp) [0..<Suc n])
      else Inl ZeroDivisionError)"
proof (cases "bp = 0")
  case True
  then show ?thesis by (simp add: calculate_strategy_def no_zero_division_def)
next
  case False
  then show ?thesis
    unfolding calculate_strategy_def initial_state [of bp bo tp ps vs ss]
    using loop_state_at [OF False, of vs ss tp n bo ps]
    by (simp add: state_at_def del: upt_Suc)
qed

section \<open>Rounding is monotone\<close>







section \<open>Prices, sizes and volumes of a regular grid\<close>











section \<open>What a returned grid is\<close>






section \<open>The claims\<close>

subsection \<open>C1: length and labels of the grid\<close>




subsection \<open>C2: buy prices fall from record to record\<close>




subsection \<open>C3: total investment and order sizes\<close>




subsection \<open>C4: the average price comes from unrounded sums\<close>



subsection \<open>C5: the average price lies between the lowest buy price and the base price\<close>




subsection \<open>C6: no safety orders\<close>




subsection \<open>C7: degenerate parameters\<close>




subsection \<open>C8: scenario A\<close>

text \<open>
  Claim C8 lists the records of scenario A and gives the average price of record 1 as
  about 49400.00. That is the mean of the two prices weighted by the money spent; the
  code divides the money spent by the volume bought, which gives 49395.16.
\<close>

theorem scenario_a_grid_counterexample:
  "map_sum id (map Avg_Price) (calculate_strategy 50000 100 2 2 (3/2) (11/10) (3/2)) =
     Inr [50000, 4939516 / 100, 4868622 / 100] \<and>
   \<not> \<bar>4939516 / 100 - 49400\<bar> < (4::real)"
  by code_simp

text \<open>
  C8, amended: for scenario A the grid is the three records below; all values are those
  of the claim except the average price of record 1, which is 49395.16. The deviation
  of the second safety order is 2.2 percent.
\<close>

theorem scenario_a_grid:
  "calculate_strategy 50000 100 2 2 (3/2) (11/10) (3/2) =
     Inr [\<lparr>Step = ''Base'', Buy_Price = 50000, Order_Size = 100, Total_Investment = 100,
           Avg_Price = 50000, TP_Target = 50750, Drop_Pct = 0\<rparr>,
          \<lparr>Step = ''SO #1'', Buy_Price = 49000, Order_Size = 150, Total_Investment = 250,
           Avg_Price = 4939516 / 100, TP_Target = 5013609 / 100, Drop_Pct = 2\<rparr>,
          \<lparr>Step = ''SO #2'', Buy_Price = 47922, Order_Size = 225, Total_Investment = 475,
           Avg_Price = 4868622 / 100, TP_Target = 4941651 / 100, Drop_Pct = 416 / 100\<rparr>] \<and>
   deviation_at 2 (11/10) 1 = 22 / 10"
  by code_simp

subsection \<open>C9: deleting a saved strategy\<close>

text \<open>
  Claim C9: for every store (a file holding a JSON object from names to entries) and
  every name, \<^verbatim>\<open>delete_strategy\<close> removes the entry under the name and returns
  \<^verbatim>\<open>True\<close> when the store has one, and returns \<^verbatim>\<open>False\<close> and leaves the store as it is
  when it has none.
\<close>

theorem delete_strategy_reports_removal:
  "(data name \<noteq> None \<longrightarrow>
      delete_strategy name (Stored data) = Inr (True, Stored (data(name := None)))) \<and>
   (data name = None \<longrightarrow>
      delete_strategy name (Stored data) = Inr (False, Stored data))"
  by (auto simp: delete_strategy_def)

theorem delete_strategy_reports_removal_witness:
  "delete_strategy ''My Strategy''
     (Stored [''My Strategy'' \<mapsto> \<lparr>timestamp = ''2024-01-01 00:00:00'', parameters = Map.empty, grid = []\<rparr>]) =
     Inr (True, Stored Map.empty) \<and>
   delete_strategy ''Other'' (Stored Map.empty) = Inr (False, Stored Map.empty)"
proof -
  let ?e = "\<lparr>timestamp = ''2024-01-01 00:00:00'', parameters = Map.empty, grid = []\<rparr>"
  have "[''My Strategy'' \<mapsto> ?e] ''My Strategy'' \<noteq> None" by simp
  then have "delete_strategy ''My Strategy'' (Stored [''My Strategy'' \<mapsto> ?e]) =
      Inr (True, Stored ([''My Strategy'' \<mapsto> ?e](''My Strategy'' := None)))"
    using delete_strategy_reports_removal [of "[''My Strategy'' \<mapsto> ?e]" "''My Strategy''"]
    by blast
  moreover have "delete_strategy ''Other'' (Stored Map.empty) = Inr (False, Stored Map.empty)"
    using delete_strategy_reports_removal [of "Map.empty" "''Other''"] by simp
  ultimately show ?thesis by simp
qed

subsection \<open>C10: division by zero\<close>

text \<open>
  Claim C10: \<^verbatim>\<open>calculate_strategy\<close> raises \<^verbatim>\<open>ZeroDivisionError\<close> when the base price is
  zero, and when the compounded deviation of some stage is exactly 100 percent: the buy
  price of that stage is then exactly zero.
\<close>

theorem calculate_strategy_zero_division:
  "(bp = 0 \<longrightarrow> calculate_strategy bp bo n ps vs ss tp = Inl ZeroDivisionError) \<and>
   (i < n \<and> deviation_at ps ss i = 100 \<longrightarrow>
      buy_price_at bp ps ss (Suc i) = 0 \<and>
      calculate_strategy bp bo n ps vs ss tp = Inl ZeroDivisionError)"
proof -
  have "\<not> no_zero_division bp bo ps vs ss n" if "i < n" "deviation_at ps ss i = 100"
  proof -
    have "buy_price_at bp ps ss (Suc i) = 0" using that by simp
    moreover have "Suc i \<in> {1..n}" using that by simp
    ultimately show ?thesis unfolding no_zero_division_def by blast
  qed
  moreover have "\<not> no_zero_division bp bo ps vs ss n" if "bp = 0"
    using that by (simp add: no_zero_division_def)
  ultimately show ?thesis
    by (auto simp: calculate_strategy_eq)
qed

theorem calculate_strategy_zero_division_witness:
  "calculate_strategy 0 100 3 2 (3/2) (11/10) (3/2) = Inl ZeroDivisionError \<and>
   deviation_at 50 2 1 = 100 \<and> buy_price_at 50000 50 2 (Suc 1) = 0 \<and>
   calculate_strategy 50000 100 3 50 (3/2) 2 (3/2) = Inl ZeroDivisionError"
proof -
  have d: "(1::nat) < 3 \<and> deviation_at 50 2 1 = 100" by (simp add: deviation_at_def)
  have "calculate_strategy 0 100 3 2 (3/2) (11/10) (3/2) = Inl ZeroDivisionError"
    using calculate_strategy_zero_division [of 0 100 3 2 "3/2" "11/10" "3/2"] by simp
  moreover have "buy_price_at 50000 50 2 (Suc 1) = 0 \<and>
      calculate_strategy 50000 100 3 50 (3/2) 2 (3/2) = Inl ZeroDivisionError"
    using calculate_strategy_zero_division [of 50000 100 3 50 "3/2" 2 "3/2" 1] d by blast
  ultimately show ?thesis using d by blast
qed

end
